theory Spec2Isabelle
  imports Complex_Main "HOL-Library.Sublist"
begin

section \<open>District information chatbot: retrieval and response pipeline\<close>

text \<open>
  A shallow embedding of \<^verbatim>\<open>chatbot.py\<close>: the text projector \<^verbatim>\<open>data_to_text\<close>, the
  retriever \<^verbatim>\<open>retrieve_documents\<close>, the response composer \<^verbatim>\<open>generate_response\<close> and the
  request handler \<^verbatim>\<open>chat\<close> with its keyword filter.

  Modelling decisions.
  \<^item> Strings are \<open>string\<close>; the case and whitespace functions below are those of Python on
    ASCII text (characters above 127 are left alone and are never whitespace).
  \<^item> A raised exception is the \<open>Inl\<close> branch of a sum; \<open>Inr\<close> is a normal return.
  \<^item> The embedding model and the FAISS index are external: their composition
    \<^verbatim>\<open>faiss_index.search(model.encode([query]), k)\<close> is a parameter \<open>search\<close> that yields
    either an exception or the list \<^verbatim>\<open>zip(indices[0], distances[0])\<close> of (position, distance)
    pairs. Distances range over any linear order (floating point without NaN).
  \<^item> How Python renders a field value inside an f-string (\<^verbatim>\<open>format(v, '')\<close>) is the
    parameter \<open>fmt\<close>; \<^verbatim>\<open>float(s)\<close> is the parameter \<open>to_float\<close>, \<open>None\<close> where Python raises.
  \<^item> \<^verbatim>\<open>generate_response\<close> returns HTML. The embedding returns the values the HTML
    template interpolates (the query, the six cells of every table row in order, the labels
    and data of the chart configuration when the chart is appended), not the markup around
    them. Its third argument, the list of records, is never read and is left out.
  \<^item> \<^verbatim>\<open>load_data\<close> and \<^verbatim>\<open>create_vector_store\<close> read a file and call the external model;
    they are not modelled. The list \<open>texts\<close> they produce is an argument of the retriever.
\<close>

subsection \<open>Exceptions\<close>

datatype error =
    KeyError string
  | ValueError
  | IndexError
  | AttributeError
  | ExternalError string

definition bind_exc :: "error + 'a \<Rightarrow> ('a \<Rightarrow> error + 'b) \<Rightarrow> error + 'b" where
  "bind_exc m f = (case m of Inl e \<Rightarrow> Inl e | Inr x \<Rightarrow> f x)"

subsection \<open>Python string operations\<close>

text \<open>\<^verbatim>\<open>str.lower\<close> on ASCII: the 26 capital letters are mapped, everything else is kept.\<close>

definition lower_char :: "char \<Rightarrow> char" where
  "lower_char c =
     (case map_of (zip ''ABCDEFGHIJKLMNOPQRSTUVWXYZ'' ''abcdefghijklmnopqrstuvwxyz'') c of
        None \<Rightarrow> c
      | Some l \<Rightarrow> l)"

definition lower :: "string \<Rightarrow> string" where
  "lower s = map lower_char s"

text \<open>
  \<^verbatim>\<open>str.isspace\<close> on ASCII: tab, line feed, vertical tab, form feed, carriage return, the
  four separators 0x1C to 0x1F, and the space.
\<close>

definition is_space :: "char \<Rightarrow> bool" where
  "is_space c = (c \<in> set [CHR 0x09, CHR 0x0A, CHR 0x0B, CHR 0x0C, CHR 0x0D,
                            CHR 0x1C, CHR 0x1D, CHR 0x1E, CHR 0x1F, CHR '' ''])"

text \<open>\<^verbatim>\<open>str.strip()\<close>: whitespace is removed from the left end, then from the right end.\<close>

definition strip :: "string \<Rightarrow> string" where
  "strip s = rev (dropWhile is_space (rev (dropWhile is_space s)))"

text \<open>\<^verbatim>\<open>s.startswith(p)\<close>.\<close>

definition starts_with :: "string \<Rightarrow> string \<Rightarrow> bool" where
  "starts_with s p = (take (length p) s = p)"

text \<open>\<^verbatim>\<open>sub in s\<close> on strings: \<open>sub\<close> occurs in \<open>s\<close> as a contiguous block.\<close>

fun py_in :: "string \<Rightarrow> string \<Rightarrow> bool" where
  "py_in sub [] = (sub = [])"
| "py_in sub (c # cs) = (starts_with (c # cs) sub \<or> py_in sub cs)"

text \<open>
  \<^verbatim>\<open>s.split(sep)\<close> for a non-empty separator: the occurrences of \<open>sep\<close> are found from the
  left, without overlap, and the pieces between them are returned; \<open>cur\<close> is the piece being
  read. Both call sites pass a literal separator; for the empty separator, where Python
  raises, the function returns the whole string as one piece.
\<close>

fun split_from :: "string \<Rightarrow> string \<Rightarrow> string \<Rightarrow> string list" where
  "split_from sep cur [] = [cur]"
| "split_from sep cur (c # cs) =
     (if sep \<noteq> [] \<and> starts_with (c # cs) sep
      then cur # split_from sep [] (drop (length sep - 1) cs)
      else split_from sep (cur @ [c]) cs)"

definition split_str :: "string \<Rightarrow> string \<Rightarrow> string list" where
  "split_str s sep = split_from sep [] s"

text \<open>
  \<^verbatim>\<open>key, value = part.split(sep, 1)\<close>: the string is cut at the first occurrence of \<open>sep\<close>.
  Without an occurrence the split has one element and the unpacking raises
  \<^verbatim>\<open>ValueError\<close>, which is \<open>None\<close> here.
\<close>

fun split_first :: "string \<Rightarrow> string \<Rightarrow> string \<Rightarrow> (string \<times> string) option" where
  "split_first sep cur [] = None"
| "split_first sep cur (c # cs) =
     (if sep \<noteq> [] \<and> starts_with (c # cs) sep
      then Some (cur, drop (length sep - 1) cs)
      else split_first sep (cur @ [c]) cs)"

text \<open>\<^verbatim>\<open>s.replace(old, new)\<close> for a non-empty \<open>old\<close>: every occurrence, from the left.\<close>

fun replace_str :: "string \<Rightarrow> string \<Rightarrow> string \<Rightarrow> string" where
  "replace_str old new [] = []"
| "replace_str old new (c # cs) =
     (if old \<noteq> [] \<and> starts_with (c # cs) old
      then new @ replace_str old new (drop (length old - 1) cs)
      else c # replace_str old new cs)"

subsection \<open>Dictionaries and lists\<close>

text \<open>\<^verbatim>\<open>d[k]\<close> on a dictionary: a missing key raises \<^verbatim>\<open>KeyError\<close>.\<close>

definition getitem :: "(string \<rightharpoonup> 'v) \<Rightarrow> string \<Rightarrow> error + 'v" where
  "getitem d k = (case d k of None \<Rightarrow> Inl (KeyError k) | Some v \<Rightarrow> Inr v)"

text \<open>
  \<^verbatim>\<open>texts[i]\<close> on a list: a negative position counts from the end, a position outside
  \<open>-len \<dots> len - 1\<close> raises \<^verbatim>\<open>IndexError\<close>.
\<close>

definition list_item :: "'a list \<Rightarrow> int \<Rightarrow> error + 'a" where
  "list_item xs i =
     (if 0 \<le> i \<and> i < int (length xs) then Inr (xs ! nat i)
      else if i < 0 \<and> - int (length xs) \<le> i then Inr (xs ! nat (int (length xs) + i))
      else Inl IndexError)"

subsection \<open>Keyword filter\<close>

definition FORBIDDEN_KEYWORDS :: "string list" where
  "FORBIDDEN_KEYWORDS =
     [''jailbreak'', ''hack'', ''exploit'', ''bypass'', ''override'', ''system prompt'',
      ''ignore instructions'', ''root access'', ''admin'', ''malicious'', ''code injection'']"

subsection \<open>Text projector\<close>


subsection \<open>Retriever\<close>

text \<open>
  \<^verbatim>\<open>retrieve_documents\<close>. The comprehension walks the (position, distance) pairs in the
  order of the index, tests \<^verbatim>\<open>dist < threshold\<close> first and evaluates \<^verbatim>\<open>texts[i]\<close> only for
  a pair that passes; an exception of \<open>search\<close> or of the list access leaves the function
  (it is logged and raised again).
\<close>

fun valid_docs :: "string list \<Rightarrow> 'd::linorder \<Rightarrow> (int \<times> 'd) list \<Rightarrow> error + string list" where
  "valid_docs texts threshold [] = Inr []"
| "valid_docs texts threshold ((i, distance) # rest) =
     (if distance < threshold
      then bind_exc (list_item texts i) (\<lambda>doc.
           bind_exc (valid_docs texts threshold rest) (\<lambda>docs. Inr (doc # docs)))
      else valid_docs texts threshold rest)"

definition retrieve_documents ::
  "(string \<Rightarrow> int \<Rightarrow> error + (int \<times> 'd::linorder) list) \<Rightarrow> string list
     \<Rightarrow> string \<Rightarrow> int \<Rightarrow> 'd \<Rightarrow> error + string list" where
  "retrieve_documents search texts query k threshold =
     bind_exc (search query k) (\<lambda>found. valid_docs texts threshold found)"

subsection \<open>Response composer\<close>

text \<open>
  The inner loop of \<^verbatim>\<open>generate_response\<close> over \<^verbatim>\<open>doc.split(", ")\<close>: each part is cut at its
  first \<^verbatim>\<open>": "\<close>, the key is lower-cased with spaces replaced by underscores, and the entry
  is stored (a repeated key is overwritten).
\<close>

fun parse_parts :: "(string \<rightharpoonup> string) \<Rightarrow> string list \<Rightarrow> error + (string \<rightharpoonup> string)" where
  "parse_parts fields [] = Inr fields"
| "parse_parts fields (part # parts) =
     (case split_first '': '' [] part of
        None \<Rightarrow> Inl ValueError
      | Some (key, val) \<Rightarrow> parse_parts (fields(replace_str '' '' ''_'' (lower key) \<mapsto> val)) parts)"

definition parse_doc :: "string \<Rightarrow> error + (string \<rightharpoonup> string)" where
  "parse_doc doc = parse_parts Map.empty (split_str doc '', '')"

text \<open>One entry of \<^verbatim>\<open>chart_data\<close>: the label and the rainfall as a number.\<close>

definition chart_item :: "(string \<Rightarrow> 'n option) \<Rightarrow> (string \<rightharpoonup> string) \<Rightarrow> error + (string \<times> 'n)" where
  "chart_item to_float fields =
     bind_exc (getitem fields ''year'') (\<lambda>year.
     bind_exc (getitem fields ''scenario'') (\<lambda>scenario.
     bind_exc (getitem fields ''rainfall'') (\<lambda>rainfall.
       (case to_float (replace_str '' mm'' '''' rainfall) of
          None \<Rightarrow> Inl ValueError
        | Some r \<Rightarrow> Inr (year @ '' ('' @ scenario @ '')'', r)))))"

text \<open>
  The first loop over \<^verbatim>\<open>retrieved_docs\<close>: it returns \<^verbatim>\<open>table_rows\<close> and \<^verbatim>\<open>chart_data\<close>, and
  stops at the first document that raises.
\<close>

fun parse_docs ::
  "(string \<Rightarrow> 'n option) \<Rightarrow> bool \<Rightarrow> string list
     \<Rightarrow> error + ((string \<rightharpoonup> string) list \<times> (string \<times> 'n) list)" where
  "parse_docs to_float is_ariyalur [] = Inr ([], [])"
| "parse_docs to_float is_ariyalur (doc # docs) =
     bind_exc (parse_doc doc) (\<lambda>fields.
     bind_exc (if is_ariyalur then bind_exc (chart_item to_float fields) (\<lambda>item. Inr [item])
           else Inr []) (\<lambda>items.
     bind_exc (parse_docs to_float is_ariyalur docs) (\<lambda>(table_rows, chart_data).
       Inr (fields # table_rows, items @ chart_data))))"

text \<open>The six cells of one table row, read in the order of the template.\<close>

record table_row =
  district :: string
  year :: string
  scenario :: string
  rainfall :: string
  groundwater_level :: string
  population :: string

definition render_row :: "(string \<rightharpoonup> string) \<Rightarrow> error + table_row" where
  "render_row row =
     bind_exc (getitem row ''district'') (\<lambda>d.
     bind_exc (getitem row ''year'') (\<lambda>y.
     bind_exc (getitem row ''scenario'') (\<lambda>s.
     bind_exc (getitem row ''rainfall'') (\<lambda>r.
     bind_exc (getitem row ''groundwater_level'') (\<lambda>g.
     bind_exc (getitem row ''population'') (\<lambda>p.
       Inr \<lparr>district = d, year = y, scenario = s, rainfall = r,
            groundwater_level = g, population = p\<rparr>))))))"

fun render_rows :: "(string \<rightharpoonup> string) list \<Rightarrow> error + table_row list" where
  "render_rows [] = Inr []"
| "render_rows (row # rows) =
     bind_exc (render_row row) (\<lambda>r.
     bind_exc (render_rows rows) (\<lambda>rs. Inr (r # rs)))"

text \<open>
  What \<^verbatim>\<open>generate_response\<close> returns: one of the plain sentences, or the answer built from
  the query, the table rows and, when \<^verbatim>\<open>chart_html\<close> is not empty, the labels and data of
  the chart configuration.
\<close>

datatype 'n response =
    Message string
  | Answer string "table_row list" "(string list \<times> 'n list) option"

definition greeting_reply :: string where
  "greeting_reply = ''Hello! I'm a chatbot that provides district-level groundwater and rainfall data. Try asking something like 'District names'.''"

definition identity_reply :: string where
  "identity_reply = ''I'm a District Information Chatbot, designed to provide data on districts like rainfall, groundwater levels, and population. Ask me about a specific district or data point, e.g., 'District names'.''"

definition fallback_reply :: "string \<Rightarrow> string" where
  "fallback_reply query = ''Sorry, I couldn't find relevant data for '' @ [CHR 0x27] @ query
     @ [CHR 0x27] @ ''. Please try a query like 'Ariyalur rainfall in 2020'.''"

definition generate_response ::
  "(string \<Rightarrow> 'n option) \<Rightarrow> string \<Rightarrow> string list \<Rightarrow> error + 'n response" where
  "generate_response to_float query retrieved_docs =
     (let query_lower = strip (lower query) in
      if query_lower \<in> set [''hi'', ''hello'', ''hey''] then Inr (Message greeting_reply)
      else if query_lower = ''who are you'' then Inr (Message identity_reply)
      else if retrieved_docs = [] then Inr (Message (fallback_reply query))
      else
        let is_ariyalur = py_in ''ariyalur'' query_lower in
        bind_exc (parse_docs to_float is_ariyalur retrieved_docs) (\<lambda>(table_rows, chart_data).
        bind_exc (render_rows table_rows) (\<lambda>rows.
          Inr (Answer query rows
                 (if is_ariyalur \<and> chart_data \<noteq> []
                  then Some (map fst chart_data, map snd chart_data)
                  else None)))))"

subsection \<open>Request handler\<close>

text \<open>
  The value of \<^verbatim>\<open>request.json.get('query')\<close>: \<^verbatim>\<open>None\<close> (the key is missing or null), a
  string, or another JSON value, of which only its truth value matters.
\<close>

datatype query_field = QNone | QStr string | QOther bool

text \<open>The body under the key \<^verbatim>\<open>response\<close> and the HTTP status.\<close>

datatype 'n body =
    Plain string
  | Composed "'n response"
  | ErrorText error

datatype component = Gatekeeper | Retriever | Composer

text \<open>
  \<^verbatim>\<open>chat\<close>, with the parts of the pipeline it has entered listed in order: \<open>Gatekeeper\<close>
  when control reaches the keyword check, \<open>Retriever\<close> at the call of
  \<^verbatim>\<open>retrieve_documents\<close>, \<open>Composer\<close> at the call of \<^verbatim>\<open>generate_response\<close>. An exception is
  caught by the handler and answered with status 500 (\<open>ErrorText e\<close> stands for
  \<^verbatim>\<open>f'Error: {str(e)}'\<close>). A reply without explicit status has status 200.
\<close>

definition chat ::
  "(string \<Rightarrow> int \<Rightarrow> error + (int \<times> 'd::{linorder,one}) list) \<Rightarrow> (string \<Rightarrow> 'n option)
     \<Rightarrow> string list \<Rightarrow> query_field \<Rightarrow> ('n body \<times> nat) \<times> component list" where
  "chat search to_float texts q =
     (case q of
        QNone \<Rightarrow> ((Plain ''Please provide a query.'', 400), [])
      | QOther truthy \<Rightarrow>
          if \<not> truthy then ((Plain ''Please provide a query.'', 400), [])
          else ((ErrorText AttributeError, 500), [Gatekeeper])
      | QStr query \<Rightarrow>
          if query = [] then ((Plain ''Please provide a query.'', 400), [])
          else
            let query_lower = strip (lower query) in
            if list_ex (\<lambda>keyword. py_in keyword query_lower) FORBIDDEN_KEYWORDS
            then ((Plain ''Wrong question you asked.'', 400), [Gatekeeper])
            else
              (case retrieve_documents search texts query 3 1 of
                 Inl e \<Rightarrow> ((ErrorText e, 500), [Gatekeeper, Retriever])
               | Inr retrieved_docs \<Rightarrow>
                   (case generate_response to_float query retrieved_docs of
                      Inl e \<Rightarrow> ((ErrorText e, 500), [Gatekeeper, Retriever, Composer])
                    | Inr response \<Rightarrow>
                        ((Composed response, 200), [Gatekeeper, Retriever, Composer]))))"

text \<open>The table rows and the chart of a response; a plain sentence has neither.\<close>

definition rows_of :: "'n response \<Rightarrow> table_row list" where
  "rows_of r = (case r of Message m \<Rightarrow> [] | Answer q rows c \<Rightarrow> rows)"


subsection \<open>Positions and index results used below\<close>


text \<open>
  What FAISS returns for \<^verbatim>\<open>k = 3\<close> on a flat L2 index that holds one vector: the hit
  at position 0 (here at distance 1/4), and, for the two slots it cannot fill, the
  position \<^verbatim>\<open>-1\<close> with the largest finite single-precision number as distance.
\<close>

definition FLT_MAX :: real where
  "FLT_MAX = 340282346638528859811704183484516925440"

definition one_record_search :: "string \<Rightarrow> int \<Rightarrow> error + (int \<times> real) list" where
  "one_record_search query k = Inr [(0, 1 / 4), (- 1, FLT_MAX), (- 1, FLT_MAX)]"

subsection \<open>Vocabulary for the composer's properties\<close>

text \<open>
  The keys the table template reads, and the documents that parse into them: the parse
  raises nothing and every one of the six keys is among the parsed entries.
\<close>

definition expected_keys :: "string list" where
  "expected_keys = [''district'', ''year'', ''scenario'', ''rainfall'', ''groundwater_level'', ''population'']"

definition parses_to_expected :: "string \<Rightarrow> bool" where
  "parses_to_expected doc =
     (case parse_doc doc of
        Inl e \<Rightarrow> False
      | Inr flds \<Rightarrow> list_all (\<lambda>k. flds k \<noteq> None) expected_keys)"


text \<open>A canonical text and the reading of its rainfall, for the worked examples.\<close>

definition sample_doc :: string where
  "sample_doc = ''District: Ariyalur, Latitude: 11.14, Longitude: 79.08, Year: 2020, Scenario: baseline, Population: 754894, Rainfall: 1034.5 mm, Groundwater Level: 12.3 m''"

definition sample_float :: "string \<Rightarrow> real option" where
  "sample_float s = (if s = ''1034.5'' then Some (2069 / 2) else None)"

subsection \<open>Vocabulary for the round trip\<close>





section \<open>Properties\<close>

subsection \<open>Substring test\<close>

lemma starts_with_iff: "starts_with s p \<longleftrightarrow> (\<exists>post. s = p @ post)"
  unfolding starts_with_def
  by (metis append_eq_conv_conj append_take_drop_id)

lemma py_in_iff: "py_in sub s \<longleftrightarrow> (\<exists>pre post. s = pre @ sub @ post)"
proof (induction s)
  case Nil
  then show ?case by auto
next
  case (Cons c cs)
  show ?case
  proof
    assume "py_in sub (c # cs)"
    then consider "starts_with (c # cs) sub" | "py_in sub cs" by auto
    then show "\<exists>pre post. c # cs = pre @ sub @ post"
    proof cases
      case 1
      then obtain post where "c # cs = sub @ post" by (auto simp: starts_with_iff)
      then have "c # cs = [] @ sub @ post" by simp
      then show ?thesis by blast
    next
      case 2
      then obtain pre post where "cs = pre @ sub @ post" using Cons.IH by blast
      then have "c # cs = (c # pre) @ sub @ post" by simp
      then show ?thesis by blast
    qed
  next
    assume "\<exists>pre post. c # cs = pre @ sub @ post"
    then obtain pre post where eq: "c # cs = pre @ sub @ post" by blast
    show "py_in sub (c # cs)"
    proof (cases pre)
      case Nil
      then have "starts_with (c # cs) sub" using eq by (auto simp: starts_with_iff)
      then show ?thesis by simp
    next
      case (Cons p ps)
      then have "cs = ps @ sub @ post" using eq by simp
      then have "py_in sub cs" using Cons.IH by blast
      then show ?thesis by simp
    qed
  qed
qed

subsection \<open>Fixed replies of the composer\<close>

text \<open>
  Claim C6. The composer checks its special cases first: a query whose lower-cased, trimmed
  form is one of the greetings gets the fixed greeting sentence, and one whose normalised
  form is the identity question gets the fixed identity sentence; both are plain sentences
  without a table, whatever documents were retrieved.
\<close>

theorem greeting_and_identity_first:
  "(strip (lower query) \<in> set [''hi'', ''hello'', ''hey'']
      \<longrightarrow> generate_response to_float query docs = Inr (Message greeting_reply))
   \<and> (strip (lower query) = ''who are you''
      \<longrightarrow> generate_response to_float query docs = Inr (Message identity_reply))"
  by (simp add: generate_response_def Let_def)

theorem greeting_and_identity_first_witness:
  "strip (lower ''  Hello '') \<in> set [''hi'', ''hello'', ''hey'']
   \<and> generate_response (\<lambda>s. None :: nat option) ''  Hello '' [''no grammar here''] = Inr (Message greeting_reply)
   \<and> strip (lower ''Who are YOU'') = ''who are you''
   \<and> generate_response (\<lambda>s. None :: nat option) ''Who are YOU'' [''no grammar here''] = Inr (Message identity_reply)"
  using greeting_and_identity_first [of "''  Hello ''" "\<lambda>s. None :: nat option" "[''no grammar here'']"]
    greeting_and_identity_first [of "''Who are YOU''" "\<lambda>s. None :: nat option" "[''no grammar here'']"]
  by (simp add: strip_def lower_def lower_char_def is_space_def)

text \<open>
  Claim C7. For a query that is neither a greeting nor the identity question, an empty
  list of retrieved documents yields the fallback sentence, which contains the query as it
  was typed and carries no table rows.
\<close>

theorem empty_retrieval_fallback:
  assumes "strip (lower query) \<notin> set [''hi'', ''hello'', ''hey'']"
    and "strip (lower query) \<noteq> ''who are you''"
  shows "generate_response to_float query [] = Inr (Message (fallback_reply query))
    \<and> py_in query (fallback_reply query)
    \<and> rows_of (Message (fallback_reply query) :: 'n response) = []"
proof -
  have "py_in query (fallback_reply query)"
    unfolding py_in_iff fallback_reply_def by (metis append.assoc)
  then show ?thesis using assms
    by (simp add: generate_response_def Let_def rows_of_def)
qed

theorem empty_retrieval_fallback_witness:
  "strip (lower ''xyzzy Quux'') \<notin> set [''hi'', ''hello'', ''hey'']
   \<and> strip (lower ''xyzzy Quux'') \<noteq> ''who are you''
   \<and> generate_response (\<lambda>s. None :: nat option) ''xyzzy Quux'' []
       = Inr (Message ''Sorry, I couldn't find relevant data for 'xyzzy Quux'. Please try a query like 'Ariyalur rainfall in 2020'.'')"
proof -
  have h1: "strip (lower ''xyzzy Quux'') \<notin> set [''hi'', ''hello'', ''hey'']"
    by (simp add: strip_def lower_def lower_char_def is_space_def)
  have h2: "strip (lower ''xyzzy Quux'') \<noteq> ''who are you''"
    by (simp add: strip_def lower_def lower_char_def is_space_def)
  have "generate_response (\<lambda>s. None :: nat option) ''xyzzy Quux'' []
      = Inr (Message (fallback_reply ''xyzzy Quux''))"
    using empty_retrieval_fallback [OF h1 h2] by blast
  then show ?thesis using h1 h2 by (simp add: fallback_reply_def)
qed

subsection \<open>Request handler\<close>


subsection \<open>Retriever\<close>

lemma bind_exc_Inr_iff:
  "bind_exc m f = Inr y \<longleftrightarrow> (\<exists>x. m = Inr x \<and> f x = Inr y)"
  by (cases m) (simp_all add: bind_exc_def)

lemma bind_exc_Inr [simp]: "bind_exc (Inr x) f = f x"
  by (simp add: bind_exc_def)

lemma bind_exc_Inl [simp]: "bind_exc (Inl e) f = Inl e"
  by (simp add: bind_exc_def)












subsection \<open>Keyword filter\<close>

text \<open>
  Stripping the ends of a string cannot cut into a block that begins and ends with a
  character that is not whitespace, and every forbidden keyword is such a block.
\<close>

lemma dropWhile_keeps_block:
  assumes "kw \<noteq> []" and "\<not> P (hd kw)"
  shows "\<exists>a. dropWhile P (x @ kw @ y) = a @ kw @ y"
proof (induction x)
  case Nil
  from assms obtain k ks where "kw = k # ks" "\<not> P k" by (cases kw) auto
  then have "dropWhile P ([] @ kw @ y) = [] @ kw @ y" by simp
  then show ?case by blast
next
  case (Cons c x)
  then obtain a where a: "dropWhile P (x @ kw @ y) = a @ kw @ y" by blast
  show ?case
  proof (cases "P c")
    case True
    with a have "dropWhile P ((c # x) @ kw @ y) = a @ kw @ y" by simp
    then show ?thesis by blast
  next
    case False
    then have "dropWhile P ((c # x) @ kw @ y) = (c # x) @ kw @ y" by simp
    then show ?thesis by blast
  qed
qed

lemma strip_keeps_block:
  assumes "kw \<noteq> []" and "\<not> is_space (hd kw)" and "\<not> is_space (last kw)"
  shows "\<exists>a b. strip (x @ kw @ y) = a @ kw @ b"
proof -
  from dropWhile_keeps_block [where P = is_space, OF assms(1,2)] obtain a where
    a: "dropWhile is_space (x @ kw @ y) = a @ kw @ y" by blast
  have r: "rev kw \<noteq> []" "\<not> is_space (hd (rev kw))"
    using assms by (simp_all add: hd_rev)
  from dropWhile_keeps_block [where P = is_space, OF r] obtain b where
    b: "dropWhile is_space (rev y @ rev kw @ rev a) = b @ rev kw @ rev a" by blast
  have "strip (x @ kw @ y) = a @ kw @ rev b"
    by (simp add: strip_def a b)
  then show ?thesis by blast
qed

lemma keyword_shape:
  "kw \<in> set FORBIDDEN_KEYWORDS \<Longrightarrow> kw \<noteq> [] \<and> \<not> is_space (hd kw) \<and> \<not> is_space (last kw)"
  by (auto simp: FORBIDDEN_KEYWORDS_def is_space_def)

text \<open>
  Claim C2. A query that contains a forbidden keyword as a substring, in any mix of upper
  and lower case, is answered with the fixed refusal and status 400; the handler stops at
  the keyword check, so neither the retriever nor the composer is entered, whatever the
  index and the texts are.
\<close>

theorem forbidden_query_refused:
  assumes "kw \<in> set FORBIDDEN_KEYWORDS"
    and "query = pre @ u @ post"
    and "lower u = kw"
  shows "chat search to_float texts (QStr query)
      = ((Plain ''Wrong question you asked.'', 400), [Gatekeeper])
    \<and> Retriever \<notin> set (snd (chat search to_float texts (QStr query)))
    \<and> Composer \<notin> set (snd (chat search to_float texts (QStr query)))"
proof -
  from keyword_shape [OF assms(1)] have shape:
    "kw \<noteq> []" "\<not> is_space (hd kw)" "\<not> is_space (last kw)" by simp_all
  have "u \<noteq> []" using assms(3) shape(1) by (auto simp: lower_def)
  then have nonempty: "query \<noteq> []" using assms(2) by simp
  have "lower query = lower pre @ kw @ lower post"
    using assms(2,3) by (simp add: lower_def)
  with strip_keeps_block [OF shape] obtain a b where
    "strip (lower query) = a @ kw @ b" by metis
  then have "py_in kw (strip (lower query))"
    unfolding py_in_iff by blast
  with assms(1) have "list_ex (\<lambda>keyword. py_in keyword (strip (lower query))) FORBIDDEN_KEYWORDS"
    unfolding list_ex_iff by blast
  with nonempty have
    "chat search to_float texts (QStr query) = ((Plain ''Wrong question you asked.'', 400), [Gatekeeper])"
    by (simp add: chat_def Let_def)
  then show ?thesis by simp
qed

theorem forbidden_query_refused_witness:
  "''admin'' \<in> set FORBIDDEN_KEYWORDS
   \<and> lower ''ADMIN'' = ''admin''
   \<and> chat one_record_search (\<lambda>s. None :: nat option) [''District: Ariyalur'']
        (QStr ''  Ariyalur rainfall, as ADMINistrator '')
      = ((Plain ''Wrong question you asked.'', 400), [Gatekeeper])"
proof -
  have h1: "''admin'' \<in> set FORBIDDEN_KEYWORDS" by (simp add: FORBIDDEN_KEYWORDS_def)
  have h2: "''  Ariyalur rainfall, as ADMINistrator '' = ''  Ariyalur rainfall, as '' @ ''ADMIN'' @ ''istrator ''"
    by simp
  have h3: "lower ''ADMIN'' = ''admin''" by (simp add: lower_def lower_char_def)
  from forbidden_query_refused [OF h1 h2 h3] h1 h3 show ?thesis by blast
qed

subsection \<open>Response composer: table and chart\<close>

lemma getitem_Inr_iff: "getitem d k = Inr v \<longleftrightarrow> d k = Some v"
  by (simp add: getitem_def split: option.splits)

lemma parse_docs_Inr:
  "parse_docs f a docs = Inr (rows, cd) \<Longrightarrow>
   list_all2 (\<lambda>doc flds. parse_doc doc = Inr flds) docs rows
   \<and> (if a then list_all2 (\<lambda>flds item. chart_item f flds = Inr item) rows cd else cd = [])"
proof (induction docs arbitrary: rows cd)
  case Nil
  then show ?case by simp
next
  case (Cons doc docs)
  from Cons.prems obtain flds items rows' cd' where
    flds: "parse_doc doc = Inr flds"
    and items: "(if a then bind_exc (chart_item f flds) (\<lambda>item. Inr [item]) else Inr []) = Inr items"
    and rest: "parse_docs f a docs = Inr (rows', cd')"
    and res: "rows = flds # rows'" "cd = items @ cd'"
    by (auto simp: bind_exc_Inr_iff split: prod.splits)
  from Cons.IH [OF rest] have IH:
    "list_all2 (\<lambda>doc flds. parse_doc doc = Inr flds) docs rows'"
    "if a then list_all2 (\<lambda>flds item. chart_item f flds = Inr item) rows' cd' else cd' = []"
    by simp_all
  show ?case
  proof (cases a)
    case True
    with items obtain item where "chart_item f flds = Inr item" "items = [item]"
      by (auto simp: bind_exc_Inr_iff)
    with True flds res IH show ?thesis by simp
  next
    case False
    with items have "items = []" by simp
    with False flds res IH show ?thesis by simp
  qed
qed

lemma render_rows_Inr:
  "render_rows rows = Inr rs \<Longrightarrow> list_all2 (\<lambda>row r. render_row row = Inr r) rows rs"
proof (induction rows arbitrary: rs)
  case Nil
  then show ?case by simp
next
  case (Cons row rows)
  then show ?case by (auto simp: bind_exc_Inr_iff)
qed

lemma render_row_keys:
  "render_row row = Inr r \<Longrightarrow> list_all (\<lambda>k. row k \<noteq> None) expected_keys"
  by (auto simp: render_row_def bind_exc_Inr_iff getitem_Inr_iff expected_keys_def)

lemma generate_response_general:
  assumes "generate_response f q docs = Inr r"
    and "strip (lower q) \<notin> set [''hi'', ''hello'', ''hey'']"
    and "strip (lower q) \<noteq> ''who are you''"
    and "docs \<noteq> []"
  shows "\<exists>rows cd trs.
      parse_docs f (py_in ''ariyalur'' (strip (lower q))) docs = Inr (rows, cd)
    \<and> render_rows rows = Inr trs
    \<and> r = Answer q trs (if py_in ''ariyalur'' (strip (lower q)) \<and> cd \<noteq> []
                          then Some (map fst cd, map snd cd) else None)"
  using assms
  by (auto simp: generate_response_def Let_def bind_exc_Inr_iff split: prod.splits if_splits)



lemma split_sample: "split_str sample_doc '', '' =
  [''District: Ariyalur'', ''Latitude: 11.14'', ''Longitude: 79.08'', ''Year: 2020'',
   ''Scenario: baseline'', ''Population: 754894'', ''Rainfall: 1034.5 mm'',
   ''Groundwater Level: 12.3 m'']"
  by (simp add: split_str_def sample_doc_def starts_with_def)

lemma parse_sample: "parse_doc sample_doc = Inr
  [''district'' \<mapsto> ''Ariyalur'', ''latitude'' \<mapsto> ''11.14'', ''longitude'' \<mapsto> ''79.08'',
   ''year'' \<mapsto> ''2020'', ''scenario'' \<mapsto> ''baseline'', ''population'' \<mapsto> ''754894'',
   ''rainfall'' \<mapsto> ''1034.5 mm'', ''groundwater_level'' \<mapsto> ''12.3 m'']"
  unfolding parse_doc_def split_sample
  by (simp add: starts_with_def lower_def lower_char_def)


lemma parse_short: "parse_doc ''District: Ariyalur, Year: 2020''
    = Inr [''district'' \<mapsto> ''Ariyalur'', ''year'' \<mapsto> ''2020'']"
  by (simp add: parse_doc_def split_str_def starts_with_def lower_def lower_char_def)



text \<open>
  Claim C9, as amended. For a query that is neither a greeting nor the identity question,
  a retrieved document that does not parse into the expected keys makes the whole
  composition raise: no response is produced.
\<close>

theorem grammar_violation_raises:
  assumes "strip (lower query) \<notin> set [''hi'', ''hello'', ''hey'']"
    and "strip (lower query) \<noteq> ''who are you''"
    and "doc \<in> set docs"
    and "\<not> parses_to_expected doc"
  shows "\<exists>e. generate_response to_float query docs = Inl e"
proof (cases "generate_response to_float query docs")
  case (Inl e)
  then show ?thesis by blast
next
  case (Inr r)
  from assms(3) have "docs \<noteq> []" by auto
  from generate_response_general [OF Inr assms(1,2) this] obtain rows cd trs where
    p: "parse_docs to_float (py_in ''ariyalur'' (strip (lower query))) docs = Inr (rows, cd)"
    and rr: "render_rows rows = Inr trs" by blast
  from parse_docs_Inr [OF p] have pd: "list_all2 (\<lambda>doc flds. parse_doc doc = Inr flds) docs rows"
    by simp
  from assms(3) obtain i where i: "i < length docs" "docs ! i = doc"
    by (auto simp: in_set_conv_nth)
  from pd i have f: "parse_doc doc = Inr (rows ! i)" "i < length rows"
    by (auto simp: list_all2_conv_all_nth)
  from render_rows_Inr [OF rr] f(2) have "render_row (rows ! i) = Inr (trs ! i)"
    by (auto simp: list_all2_conv_all_nth)
  then have "list_all (\<lambda>k. (rows ! i) k \<noteq> None) expected_keys" by (rule render_row_keys)
  with f(1) have "parses_to_expected doc" by (simp add: parses_to_expected_def)
  with assms(4) show ?thesis by simp
qed

theorem grammar_violation_raises_witness:
  "\<not> parses_to_expected ''District: Ariyalur, Year: 2020''
   \<and> generate_response sample_float ''rainfall in 2020''
        [sample_doc, ''District: Ariyalur, Year: 2020''] = Inl (KeyError ''scenario'')"
proof -
  have h1: "strip (lower ''rainfall in 2020'') \<notin> set [''hi'', ''hello'', ''hey'']"
    by (simp add: strip_def lower_def lower_char_def is_space_def)
  have h2: "strip (lower ''rainfall in 2020'') \<noteq> ''who are you''"
    by (simp add: strip_def lower_def lower_char_def is_space_def)
  have h3: "''District: Ariyalur, Year: 2020'' \<in> set [sample_doc, ''District: Ariyalur, Year: 2020'']"
    by simp
  have h4: "\<not> parses_to_expected ''District: Ariyalur, Year: 2020''"
    by (simp add: parses_to_expected_def parse_short expected_keys_def)
  have "generate_response sample_float ''rainfall in 2020''
        [sample_doc, ''District: Ariyalur, Year: 2020''] = Inl (KeyError ''scenario'')"
    using grammar_violation_raises [OF h1 h2 h3 h4, of sample_float]
    by (simp add: generate_response_def Let_def parse_sample parse_short strip_def lower_def
        lower_char_def is_space_def starts_with_def getitem_def render_row_def)
  with h4 show ?thesis by simp
qed

text \<open>
  Without the restriction on the query the claim fails: the greeting is answered before
  any document is parsed.
\<close>

theorem grammar_violation_greeting_counterexample:
  "\<not> parses_to_expected ''no grammar here''
   \<and> generate_response sample_float ''hi'' [''no grammar here''] = Inr (Message greeting_reply)"
  by (simp add: parses_to_expected_def parse_doc_def split_str_def starts_with_def
      generate_response_def Let_def strip_def lower_def lower_char_def is_space_def)

subsection \<open>Round trip of the canonical text\<close>










end
